theory Spec2Isabelle
  imports Main "HOL-Library.Word" "HOL-Library.Signed_Division"
begin

section \<open>Package util of sig-storage-lib-external-provisioner\<close>

text \<open>
  A shallow embedding of \<^verbatim>\<open>util/util.go\<close>. Go's \<^verbatim>\<open>int64\<close> is a 64-bit word read
  in two's complement, a pointer is an \<open>option\<close> (\<open>None\<close> is \<^verbatim>\<open>nil\<close>), a run-time
  panic is the left injection of a sum, a Go map is a partial function and a slice is
  a list (the \<^verbatim>\<open>nil\<close> slice is \<open>[]\<close>).
\<close>

subsection \<open>Machine integers and panics\<close>

type_synonym int64 = "64 word"

datatype panic = DivideByZero | NilPointerDereference

text \<open>
  Go's \<^verbatim>\<open>/\<close> on \<^verbatim>\<open>int64\<close>: the quotient is truncated towards zero, a zero divisor
  panics, and the one quotient that does not fit (the most negative value divided by
  \<^verbatim>\<open>-1\<close>) wraps around.
\<close>

definition int64_div :: "int64 \<Rightarrow> int64 \<Rightarrow> panic + int64" where
  "int64_div a b =
     (if b = 0 then Inl DivideByZero else Inr (word_of_int (sint a sdiv sint b)))"

subsection \<open>Common allocation units\<close>

definition KiB :: int64 where "KiB = 1024"
definition MiB :: int64 where "MiB = 1024 * KiB"
definition GiB :: int64 where "GiB = 1024 * MiB"
definition TiB :: int64 where "TiB = 1024 * GiB"

subsection \<open>Allocation rounding\<close>

text \<open>
  \<^verbatim>\<open>return (volumeSizeBytes + allocationUnitBytes - 1) / allocationUnitBytes\<close>:
  the sum and the difference are \<^verbatim>\<open>int64\<close> operations and wrap around.
\<close>

definition RoundUpSize :: "int64 \<Rightarrow> int64 \<Rightarrow> panic + int64" where
  "RoundUpSize volumeSizeBytes allocationUnitBytes =
     int64_div (volumeSizeBytes + allocationUnitBytes - 1) allocationUnitBytes"

definition RoundUpToGiB :: "int64 \<Rightarrow> panic + int64" where
  "RoundUpToGiB sizeBytes = RoundUpSize sizeBytes GiB"

subsection \<open>Volume and claim descriptors\<close>

text \<open>
  The types of \<^verbatim>\<open>k8s.io/api/core/v1\<close> that the package reads, with the fields it
  reads. \<^verbatim>\<open>PersistentVolumeAccessMode\<close> and \<^verbatim>\<open>PersistentVolumeMode\<close> are string
  types there; the annotations live in the embedded \<^verbatim>\<open>ObjectMeta\<close>.
\<close>

type_synonym PersistentVolumeAccessMode = string
type_synonym PersistentVolumeMode = string

definition PersistentVolumeBlock :: PersistentVolumeMode where
  "PersistentVolumeBlock = ''Block''"

definition PersistentVolumeFilesystem :: PersistentVolumeMode where
  "PersistentVolumeFilesystem = ''Filesystem''"

text \<open>
  The key of the legacy annotation, a constant of \<^verbatim>\<open>k8s.io/api/core/v1\<close>. No
  theorem below depends on its value.
\<close>

definition BetaStorageClassAnnotation :: string where
  "BetaStorageClassAnnotation = ''volume.beta.kubernetes.io/storage-class''"

record ObjectMeta =
  Annotations :: "string \<rightharpoonup> string"

record PersistentVolumeSpec =
  PV_StorageClassName :: string

record PersistentVolume =
  PV_ObjectMeta :: ObjectMeta
  PV_Spec :: PersistentVolumeSpec

record PersistentVolumeClaimSpec =
  PVC_StorageClassName :: "string option"
  PVC_VolumeMode :: "PersistentVolumeMode option"

record PersistentVolumeClaim =
  PVC_ObjectMeta :: ObjectMeta
  PVC_Spec :: PersistentVolumeClaimSpec

subsection \<open>Access-mode set operations\<close>

fun AccessModesContains ::
  "PersistentVolumeAccessMode list \<Rightarrow> PersistentVolumeAccessMode \<Rightarrow> bool" where
  "AccessModesContains [] mode = False"
| "AccessModesContains (m # modes) mode =
     (if m = mode then True else AccessModesContains modes mode)"

fun AccessModesContainedInAll ::
  "PersistentVolumeAccessMode list \<Rightarrow> PersistentVolumeAccessMode list \<Rightarrow> bool" where
  "AccessModesContainedInAll indexedModes [] = True"
| "AccessModesContainedInAll indexedModes (mode # requestedModes) =
     (if \<not> AccessModesContains indexedModes mode then False
      else AccessModesContainedInAll indexedModes requestedModes)"

subsection \<open>Storage-class and volume-mode accessors\<close>

text \<open>
  Reading through a pointer panics when the pointer is \<^verbatim>\<open>nil\<close>. Each accessor
  reads through its argument at once. Reading a key of a Go map, also of a \<^verbatim>\<open>nil\<close>
  map, never fails.
\<close>

definition deref :: "'a option \<Rightarrow> panic + 'a" where
  "deref p = (case p of None \<Rightarrow> Inl NilPointerDereference | Some x \<Rightarrow> Inr x)"

definition GetPersistentVolumeClass :: "PersistentVolume option \<Rightarrow> panic + string" where
  "GetPersistentVolumeClass volume =
     (case deref volume of
        Inl p \<Rightarrow> Inl p
      | Inr v \<Rightarrow>
          (case Annotations (PV_ObjectMeta v) BetaStorageClassAnnotation of
             Some class \<Rightarrow> Inr class
           | None \<Rightarrow> Inr (PV_StorageClassName (PV_Spec v))))"

definition GetPersistentVolumeClaimClass ::
  "PersistentVolumeClaim option \<Rightarrow> panic + string" where
  "GetPersistentVolumeClaimClass claim =
     (case deref claim of
        Inl p \<Rightarrow> Inl p
      | Inr c \<Rightarrow>
          (case Annotations (PVC_ObjectMeta c) BetaStorageClassAnnotation of
             Some class \<Rightarrow> Inr class
           | None \<Rightarrow>
               if PVC_StorageClassName (PVC_Spec c) \<noteq> None
               then deref (PVC_StorageClassName (PVC_Spec c))
               else Inr ''''))"

text \<open>
  \<^verbatim>\<open>&&\<close> evaluates its right operand, the read through \<^verbatim>\<open>VolumeMode\<close>, only when
  the left one is true.
\<close>

definition CheckPersistentVolumeClaimModeBlock ::
  "PersistentVolumeClaim option \<Rightarrow> panic + bool" where
  "CheckPersistentVolumeClaimModeBlock pvc =
     (case deref pvc of
        Inl p \<Rightarrow> Inl p
      | Inr c \<Rightarrow>
          if PVC_VolumeMode (PVC_Spec c) \<noteq> None
          then (case deref (PVC_VolumeMode (PVC_Spec c)) of
                  Inl p \<Rightarrow> Inl p
                | Inr mode \<Rightarrow> Inr (mode = PersistentVolumeBlock))
          else Inr False)"

subsection \<open>Logging\<close>

text \<open>
  The logger travels in the context. An entry written through \<^verbatim>\<open>logger.V(4)\<close> is
  emitted when the logger's verbosity is at least 4; \<^verbatim>\<open>Info\<close> and \<^verbatim>\<open>Error\<close> on the
  logger itself are always emitted. The log is the list of emitted entries, oldest
  first, returned beside the function's result.
\<close>

record Context =
  Verbosity :: nat

datatype 'e kv = KStr string | KErr 'e

datatype 'e log_entry =
  LogInfo string "(string \<times> 'e kv) list"
| LogError "'e option" string "(string \<times> 'e kv) list"

definition V_Info ::
  "Context \<Rightarrow> nat \<Rightarrow> string \<Rightarrow> (string \<times> 'e kv) list \<Rightarrow> 'e log_entry list" where
  "V_Info ctx level msg kvs = (if level \<le> Verbosity ctx then [LogInfo msg kvs] else [])"

subsection \<open>Host and port strings\<close>

text \<open>
  \<^verbatim>\<open>net.SplitHostPort\<close> and \<^verbatim>\<open>net.JoinHostPort\<close> belong to Go's standard library,
  not to this package: the helpers take them as their first argument.
\<close>

definition SplitHostPort ::
  "(string \<Rightarrow> 'e + string \<times> string) \<Rightarrow> string \<Rightarrow> string \<times> string" where
  "SplitHostPort netSplitHostPort hostport =
     (case netSplitHostPort hostport of
        Inl err \<Rightarrow> (hostport, '''')
      | Inr (host, port) \<Rightarrow> (host, port))"

definition JoinHostPort ::
  "(string \<Rightarrow> string \<Rightarrow> string) \<Rightarrow> string \<Rightarrow> string \<Rightarrow> string" where
  "JoinHostPort netJoinHostPort host port =
     (if port \<noteq> '''' then netJoinHostPort host port else host)"

subsection \<open>DNS service discovery\<close>

record ServiceSpec =
  ClusterIP :: string

record Service =
  Svc_Spec :: ServiceSpec

definition NamespaceSystem :: string where
  "NamespaceSystem = ''kube-system''"

text \<open>
  The cluster client is the function \<open>client ctx namespace name\<close> standing for
  \<^verbatim>\<open>client.CoreV1().Services(namespace).Get(ctx, name, metav1.GetOptions{})\<close>; it
  answers with an error or with a service (the client's contract: a \<^verbatim>\<open>nil\<close> error
  comes with a service that is not \<^verbatim>\<open>nil\<close>).
\<close>

definition checkClusterIP ::
  "Service \<Rightarrow> 'e log_entry list \<Rightarrow> string \<times> 'e log_entry list" where
  "checkClusterIP dnssvc logs =
     (if length (ClusterIP (Svc_Spec dnssvc)) = 0
      then ('''', logs @ [LogError None (''DNS service ClusterIP bad'' @ [CHR 0x0A]) []])
      else (ClusterIP (Svc_Spec dnssvc), logs))"

definition FindDNSIP ::
  "Context \<Rightarrow> (Context \<Rightarrow> string \<Rightarrow> string \<Rightarrow> 'e + Service) \<Rightarrow>
     string \<times> 'e log_entry list" where
  "FindDNSIP ctx client =
     (case client ctx NamespaceSystem ''coredns'' of
        Inl err \<Rightarrow>
          (let logs = [LogInfo ''Error getting coredns service. Falling back to kube-dns''
                         [(''err'', KErr err)]]
           in case client ctx NamespaceSystem ''kube-dns'' of
                Inl err' \<Rightarrow>
                  ('''', logs @ [LogError (Some err') ''Error getting kube-dns service'' []])
              | Inr kubedns \<Rightarrow> checkClusterIP kubedns logs)
      | Inr coredns \<Rightarrow> checkClusterIP coredns [])"

subsection \<open>Host lookup on a given DNS server\<close>

text \<open>
  The messages of \<^verbatim>\<open>github.com/miekg/dns\<close>: a resource record is a value of one of
  the library's record types, and the type assertion \<^verbatim>\<open>a.(*dns.A)\<close> succeeds on the
  first constructor only. The library's functions are the fields of \<open>dns_lib\<close>.
\<close>

record Question =
  Name :: string
  Qtype :: nat

datatype 'ip RR = RR_A 'ip | RR_CNAME string | RR_Other nat

record 'ip Msg =
  Questions :: "Question list"
  Answer :: "'ip RR list"

definition TypeA :: nat where
  "TypeA = 1"

record ('ip, 'e) dns_lib =
  lib_JoinHostPort :: "string \<Rightarrow> string \<Rightarrow> string"
  dns_Fqdn :: "string \<Rightarrow> string"
  dns_Exchange :: "'ip Msg \<Rightarrow> string \<Rightarrow> 'e + 'ip Msg"
  rr_String :: "'ip RR \<Rightarrow> string"
  ip_String :: "'ip \<Rightarrow> string"

text \<open>The loop over \<^verbatim>\<open>in.Answer\<close>, with the list built so far and the log.\<close>

fun LookupHost_answers ::
  "Context \<Rightarrow> ('ip, 'e) dns_lib \<Rightarrow> 'ip RR list \<Rightarrow> string list \<Rightarrow> 'e log_entry list \<Rightarrow>
     string list \<times> 'e log_entry list" where
  "LookupHost_answers ctx lib [] iplist logs = (iplist, logs)"
| "LookupHost_answers ctx lib (a # answers) iplist logs =
     (let logs' = logs @ V_Info ctx 4 ''LookupHost answer'' [(''answer'', KStr (rr_String lib a))]
      in case a of
           RR_A ip \<Rightarrow> LookupHost_answers ctx lib answers (iplist @ [ip_String lib ip]) logs'
         | _ \<Rightarrow> LookupHost_answers ctx lib answers iplist logs')"

text \<open>
  The result is Go's pair \<^verbatim>\<open>(iplist, err)\<close>, with \<open>None\<close> for the \<^verbatim>\<open>nil\<close> error,
  beside the log.
\<close>

definition LookupHost ::
  "Context \<Rightarrow> ('ip, 'e) dns_lib \<Rightarrow> string \<Rightarrow> string \<Rightarrow>
     (string list \<times> 'e option) \<times> 'e log_entry list" where
  "LookupHost ctx lib hostname serverip =
     (let logs = V_Info ctx 4 ''LookupHost''
                   [(''hostname'', KStr hostname), (''serverIP'', KStr serverip)];
          m = \<lparr>Questions = [\<lparr>Name = dns_Fqdn lib hostname, Qtype = TypeA\<rparr>], Answer = []\<rparr>
      in case dns_Exchange lib m (JoinHostPort (lib_JoinHostPort lib) serverip ''53'') of
           Inl err \<Rightarrow>
             (([], Some err),
              logs @ [LogError (Some err) ''DNS lookup failed'' [(''hostname'', KStr hostname)]])
         | Inr reply \<Rightarrow>
             (case LookupHost_answers ctx lib (Answer reply) [] logs of
                (iplist, logs') \<Rightarrow> ((iplist, None), logs')))"

subsection \<open>Standard host and port syntax\<close>

text \<open>
  Modelled from the spec: the standard host:port parsing and joining, which the package
  takes from Go's standard library (\<^verbatim>\<open>net.SplitHostPort\<close>, \<^verbatim>\<open>net.JoinHostPort\<close>) and
  does not contain. Parsing fails when there is no colon-delimited port or when the
  brackets of an IPv6 literal are malformed; joining puts a host that contains a colon
  in brackets. The properties of \<open>SplitHostPort\<close> and \<open>JoinHostPort\<close> hold for every
  parser and every joiner; these two serve as concrete instances.
\<close>

datatype AddrError =
  MissingPort | TooManyColons | MissingBracket | UnexpectedOpenBracket | UnexpectedCloseBracket

fun IndexByteString :: "string \<Rightarrow> char \<Rightarrow> nat option" where
  "IndexByteString [] c = None"
| "IndexByteString (x # xs) c =
     (if x = c then Some 0 else map_option Suc (IndexByteString xs c))"

definition LastIndexByteString :: "string \<Rightarrow> char \<Rightarrow> nat option" where
  "LastIndexByteString s c =
     map_option (\<lambda>k. length s - 1 - k) (IndexByteString (rev s) c)"

definition splitRest ::
  "string \<Rightarrow> string \<Rightarrow> nat \<Rightarrow> nat \<Rightarrow> nat \<Rightarrow> AddrError + string \<times> string" where
  "splitRest hostport host j k i =
     (if IndexByteString (drop j hostport) (CHR ''['') \<noteq> None then Inl UnexpectedOpenBracket
      else if IndexByteString (drop k hostport) (CHR '']'') \<noteq> None
      then Inl UnexpectedCloseBracket
      else Inr (host, drop (i + 1) hostport))"

definition net_SplitHostPort :: "string \<Rightarrow> AddrError + string \<times> string" where
  "net_SplitHostPort hostport =
     (case LastIndexByteString hostport (CHR '':'') of
        None \<Rightarrow> Inl MissingPort
      | Some i \<Rightarrow>
          if take 1 hostport = [CHR ''['']
          then (case IndexByteString hostport (CHR '']'') of
                  None \<Rightarrow> Inl MissingBracket
                | Some e \<Rightarrow>
                    if e + 1 = length hostport then Inl MissingPort
                    else if e + 1 = i
                    then splitRest hostport (take (e - 1) (drop 1 hostport)) 1 (e + 1) i
                    else if take 1 (drop (e + 1) hostport) = [CHR '':'']
                    then Inl TooManyColons
                    else Inl MissingPort)
          else (let host = take i hostport
                in if IndexByteString host (CHR '':'') \<noteq> None then Inl TooManyColons
                   else splitRest hostport host 0 0 i))"

definition net_JoinHostPort :: "string \<Rightarrow> string \<Rightarrow> string" where
  "net_JoinHostPort host port =
     (if IndexByteString host (CHR '':'') \<noteq> None
      then [CHR ''[''] @ host @ [CHR '']'', CHR '':''] @ port
      else host @ [CHR '':''] @ port)"

subsection \<open>A concrete DNS library\<close>

text \<open>
  An instance of \<open>dns_lib\<close> for evaluating \<open>LookupHost\<close>: addresses are kept as their
  text, the server at \<^verbatim>\<open>10.0.0.10:53\<close> answers every question with an alias followed
  by two addresses and a text record, and every other server times out. Its qualifier
  follows the rule of the DNS library's \<^verbatim>\<open>Fqdn\<close>: a name is fully qualified when it
  ends in a dot that is not escaped, that is, with an even number of backslashes before
  the dot; any other name gets a dot appended.
\<close>

definition IsFqdn :: "string \<Rightarrow> bool" where
  "IsFqdn s =
     (s \<noteq> [] \<and> last s = CHR ''.'' \<and>
      even (length (takeWhile (\<lambda>c. c = CHR 0x5C) (rev (butlast s)))))"

definition Fqdn :: "string \<Rightarrow> string" where
  "Fqdn s = (if IsFqdn s then s else s @ ''.'')"

definition demo_lib :: "(string, string) dns_lib" where
  "demo_lib =
     \<lparr>lib_JoinHostPort = net_JoinHostPort,
      dns_Fqdn = Fqdn,
      dns_Exchange = (\<lambda>m addr.
        if addr = ''10.0.0.10:53''
        then Inr \<lparr>Questions = Questions m,
                  Answer = [RR_CNAME ''alias.example.'', RR_A ''192.0.2.1'', RR_Other 16,
                            RR_A ''192.0.2.2'']\<rparr>
        else Inl ''i/o timeout''),
      rr_String = (\<lambda>rr. ''rr''),
      ip_String = (\<lambda>ip. ip)\<rparr>"

section \<open>Properties\<close>

subsection \<open>Two's-complement arithmetic on 64 bits\<close>

lemma sint_int64_of_int: "sint (word_of_int k :: int64) = signed_take_bit 63 k"
  by (simp add: sint_sbintrunc')

lemma sum_as_of_int:
  fixes v u :: int64
  shows "v + u - 1 = word_of_int (sint v + sint u - 1)"
  by simp

lemma signed_take_bit_63_wrap:
  fixes k :: int
  assumes "2 ^ 63 \<le> k" "k < 2 ^ 64"
  shows "signed_take_bit 63 k = k - 2 ^ 64"
proof -
  have "(k + 2 ^ 63) mod 2 ^ 64 = k + 2 ^ 63 - 2 ^ 64"
    using assms by (intro int_mod_pos_eq [where q = 1]) auto
  then have "take_bit 64 (k + 2 ^ 63) = k + 2 ^ 63 - 2 ^ 64"
    by (simp only: take_bit_eq_mod)
  then show ?thesis
    by (simp add: signed_take_bit_eq_take_bit_shift)
qed

lemma sint_sum_no_overflow:
  fixes v u :: int64
  assumes "0 \<le> sint v" "0 < sint u" "sint v + sint u - 1 < 2 ^ 63"
  shows "sint (v + u - 1) = sint v + sint u - 1"
proof -
  have "sint (v + u - 1) = signed_take_bit 63 (sint v + sint u - 1)"
    by (simp only: sum_as_of_int sint_int64_of_int)
  also have "\<dots> = sint v + sint u - 1"
    using assms by (intro signed_take_bit_int_eq_self) auto
  finally show ?thesis .
qed

lemma sint_int64_bounds:
  fixes v :: int64
  shows "- (2 ^ 63) \<le> sint v" "sint v < 2 ^ 63"
  using sint_ge [of v] sint_lt [of v] by simp_all

lemma sint_sum_overflow:
  fixes v u :: int64
  assumes "2 ^ 63 < sint v + sint u"
  shows "sint (v + u - 1) = sint v + sint u - 1 - 2 ^ 64"
proof -
  have "sint (v + u - 1) = signed_take_bit 63 (sint v + sint u - 1)"
    by (simp only: sum_as_of_int sint_int64_of_int)
  also have "\<dots> = sint v + sint u - 1 - 2 ^ 64"
    using assms sint_int64_bounds(2) [of v] sint_int64_bounds(2) [of u]
    by (intro signed_take_bit_63_wrap) auto
  finally show ?thesis .
qed

lemma sdiv_nonneg: "0 \<le> (a::int) \<Longrightarrow> 0 < b \<Longrightarrow> a sdiv b = a div b"
  by (cases "a = 0") (simp_all add: signed_divide_int_def)

lemma sdiv_neg_pos: "(a::int) < 0 \<Longrightarrow> 0 < b \<Longrightarrow> a sdiv b = - ((- a) div b)"
  by (simp add: signed_divide_int_def)

lemma sint_quot:
  fixes q :: int
  assumes "- (2 ^ 63) \<le> q" "q < 2 ^ 63"
  shows "sint (word_of_int q :: int64) = q"
  using assms by (simp add: sint_int64_of_int signed_take_bit_int_eq_self)

lemma div_mult_le_int:
  fixes a u :: int
  assumes "0 < u"
  shows "a div u * u \<le> a"
proof -
  have "a div u * u + a mod u = a" by simp
  moreover have "0 \<le> a mod u" using assms by simp
  ultimately show ?thesis by linarith
qed

lemma ceil_div_upper:
  fixes v u :: int
  assumes "0 < u"
  shows "v \<le> ((v + u - 1) div u) * u"
proof -
  define d where "d = (v + u - 1) div u"
  define r where "r = (v + u - 1) mod u"
  have eq: "d * u + r = v + u - 1" by (simp add: d_def r_def)
  have "r < u" using assms by (simp add: r_def)
  with eq have "v \<le> d * u" by linarith
  then show ?thesis by (simp only: d_def)
qed

lemma ceil_div_lower:
  fixes v u :: int
  assumes "0 < u"
  shows "((v + u - 1) div u - 1) * u < v"
proof -
  define d where "d = (v + u - 1) div u"
  define r where "r = (v + u - 1) mod u"
  have eq: "d * u + r = v + u - 1" by (simp add: d_def r_def)
  have "0 \<le> r" using assms by (simp add: r_def)
  moreover have "(d - 1) * u = d * u - u" by (simp add: algebra_simps)
  ultimately have "(d - 1) * u < v" using eq by linarith
  then show ?thesis by (simp only: d_def)
qed

lemma ceil_div_least:
  fixes v u n :: int
  assumes "0 < u" "v \<le> n * u"
  shows "(v + u - 1) div u \<le> n"
proof -
  define d where "d = (v + u - 1) div u"
  define r where "r = (v + u - 1) mod u"
  have eq: "d * u + r = v + u - 1" by (simp add: d_def r_def)
  have r0: "0 \<le> r" using assms(1) by (simp add: r_def)
  have "d \<le> n"
  proof (rule ccontr)
    assume "\<not> d \<le> n"
    then have "n + 1 \<le> d" by simp
    then have "(n + 1) * u \<le> d * u"
      using assms(1) by (intro mult_right_mono) auto
    moreover have "(n + 1) * u = n * u + u" by (simp add: algebra_simps)
    ultimately show False using eq r0 assms(2) by linarith
  qed
  then show ?thesis by (simp only: d_def)
qed


subsection \<open>Allocation rounding\<close>

text \<open>
  Claim C1. \<open>RoundUpSize\<close> is documented to count the allocation units needed to
  hold a volume of the given size: for every non-negative volume size and every positive
  allocation unit, the smallest integer \<open>n\<close> with
  \<open>n * allocationUnitBytes \<ge> volumeSizeBytes\<close>. The code misses it where the sum
  \<^verbatim>\<open>volumeSizeBytes + allocationUnitBytes - 1\<close> does not fit in an \<^verbatim>\<open>int64\<close>. For the
  largest \<^verbatim>\<open>int64\<close> and the GiB unit the count needed is \<open>2^33\<close>, which an \<^verbatim>\<open>int64\<close>
  holds, and the code returns \<open>-8589934591\<close>, whose product with the unit is below the
  volume size.
\<close>

theorem RoundUpSize_overflow_at_max:
  "0 \<le> sint (0x7FFFFFFFFFFFFFFF :: int64) \<and> 0 < sint GiB \<and>
   RoundUpSize 0x7FFFFFFFFFFFFFFF GiB = Inr (- 8589934591) \<and>
   \<not> sint (0x7FFFFFFFFFFFFFFF :: int64) \<le> sint (- 8589934591 :: int64) * sint GiB \<and>
   sint (8589934592 :: int64) = 8589934592 \<and>
   sint (0x7FFFFFFFFFFFFFFF :: int64) \<le> sint (8589934592 :: int64) * sint GiB \<and>
   (sint (8589934592 :: int64) - 1) * sint GiB < sint (0x7FFFFFFFFFFFFFFF :: int64)"
  by (simp add: RoundUpSize_def int64_div_def GiB_def MiB_def KiB_def signed_divide_int_def)

text \<open>
  The defect is confined to the overflow of the intermediate sum. Where the sum still
  fits in an \<^verbatim>\<open>int64\<close>, the code returns, without a panic, the smallest integer \<open>n\<close>
  with \<open>n * allocationUnitBytes \<ge> volumeSizeBytes\<close>. The products are those of the
  integers, not of \<^verbatim>\<open>int64\<close>.
\<close>

lemma RoundUpSize_in_range:
  assumes "0 \<le> sint v" and "0 < sint u" and "sint v + sint u - 1 < 2 ^ 63"
  shows "\<exists>r. RoundUpSize v u = Inr r \<and>
             sint v \<le> sint r * sint u \<and>
             (sint r - 1) * sint u < sint v \<and>
             (\<forall>n. sint v \<le> n * sint u \<longrightarrow> sint r \<le> n)"
proof -
  define s where "s = sint v + sint u - 1"
  define q where "q = s div sint u"
  have s0: "0 \<le> s" and s1: "s < 2 ^ 63" using assms by (simp_all add: s_def)
  have sum: "sint (v + u - 1) = s"
    unfolding s_def using assms by (rule sint_sum_no_overflow)
  have q0: "0 \<le> q" using s0 assms(2) by (simp add: q_def pos_imp_zdiv_nonneg_iff)
  have "q * 1 \<le> q * sint u" using q0 assms(2) by (intro mult_left_mono) auto
  moreover have "q * sint u \<le> s"
    unfolding q_def using assms(2) by (rule div_mult_le_int)
  ultimately have q1: "q < 2 ^ 63" using s1 by linarith
  have "u \<noteq> 0" using assms(2) by auto
  then have res: "RoundUpSize v u = Inr (word_of_int q)"
    using s0 assms(2) by (simp add: RoundUpSize_def int64_div_def sum sdiv_nonneg q_def)
  have sq: "sint (word_of_int q :: int64) = q"
    using q0 q1 by (intro sint_quot) auto
  have "sint v \<le> q * sint u"
    unfolding q_def s_def using assms(2) by (rule ceil_div_upper)
  moreover have "(q - 1) * sint u < sint v"
    unfolding q_def s_def using assms(2) by (rule ceil_div_lower)
  moreover have "\<forall>n. sint v \<le> n * sint u \<longrightarrow> q \<le> n"
    unfolding q_def s_def using assms(2) by (auto intro: ceil_div_least)
  ultimately show ?thesis using res sq by auto
qed

lemma RoundUpSize_in_range_example:
  "0 \<le> sint (1572864000 :: int64) \<and> 0 < sint GiB \<and>
   sint (1572864000 :: int64) + sint GiB - 1 < 2 ^ 63 \<and>
   RoundUpSize 1572864000 GiB = Inr 2 \<and>
   (\<exists>r. RoundUpSize 1572864000 GiB = Inr r \<and>
        sint (1572864000 :: int64) \<le> sint r * sint GiB \<and>
        (sint r - 1) * sint GiB < sint (1572864000 :: int64) \<and>
        (\<forall>n. sint (1572864000 :: int64) \<le> n * sint GiB \<longrightarrow> sint r \<le> n))"
proof -
  have h1: "0 \<le> sint (1572864000 :: int64)" by simp
  have h2: "0 < sint GiB" by (simp add: GiB_def MiB_def KiB_def)
  have h3: "sint (1572864000 :: int64) + sint GiB - 1 < 2 ^ 63"
    by (simp add: GiB_def MiB_def KiB_def)
  have ev: "RoundUpSize 1572864000 GiB = Inr 2"
    by (simp add: RoundUpSize_def int64_div_def GiB_def MiB_def KiB_def signed_divide_int_def)
  from RoundUpSize_in_range [OF h1 h2 h3] h1 h2 h3 ev show ?thesis by blast
qed

text \<open>
  Claim C10. \<open>RoundUpSize\<close> computes on 64-bit two's-complement integers and has
  no overflow guard: for a positive allocation unit and a volume size greater than
  \<open>2^63 - allocationUnitBytes\<close>, the sum
  \<^verbatim>\<open>volumeSizeBytes + allocationUnitBytes - 1\<close> wraps modulo \<open>2^64\<close> to a negative value,
  the count returned is that wrapped sum divided by the unit with truncation, it is
  never positive, and it is negative exactly when the unit does not exceed the
  magnitude of the wrapped sum.
\<close>

theorem RoundUpSize_wraps:
  assumes "0 < sint u" and "2 ^ 63 - sint u < sint v"
  shows "sint (v + u - 1) = sint v + sint u - 1 - 2 ^ 64 \<and>
         sint (v + u - 1) < 0 \<and>
         (\<exists>r. RoundUpSize v u = Inr r \<and>
              sint r = (sint v + sint u - 1 - 2 ^ 64) sdiv sint u \<and>
              sint r \<le> 0 \<and>
              (sint r < 0 \<longleftrightarrow> sint u \<le> 2 ^ 64 - (sint v + sint u - 1)))"
proof -
  define w where "w = sint v + sint u - 1 - 2 ^ 64"
  define q where "q = (- w) div sint u"
  have ov: "2 ^ 63 < sint v + sint u" using assms(2) by linarith
  have sum: "sint (v + u - 1) = w"
    unfolding w_def using ov by (rule sint_sum_overflow)
  have wneg: "w < 0"
    using sint_int64_bounds(2) [of v] sint_int64_bounds(2) [of u] by (simp add: w_def)
  have wlow: "- (2 ^ 63) \<le> w" using ov by (simp add: w_def)
  have q0: "0 \<le> q" using wneg assms(1) by (simp add: q_def pos_imp_zdiv_nonneg_iff)
  have "q * 1 \<le> q * sint u" using q0 assms(1) by (intro mult_left_mono) auto
  moreover have "q * sint u \<le> - w"
    unfolding q_def using assms(1) by (rule div_mult_le_int)
  ultimately have q1: "q \<le> 2 ^ 63" using wlow by linarith
  have quot: "w sdiv sint u = - q"
    using wneg assms(1) by (simp add: q_def sdiv_neg_pos)
  have "u \<noteq> 0" using assms(1) by auto
  then have res: "RoundUpSize v u = Inr (word_of_int (- q))"
    by (simp add: RoundUpSize_def int64_div_def sum quot)
  have sq: "sint (word_of_int (- q) :: int64) = - q"
    using q0 q1 by (intro sint_quot) auto
  have "0 < q \<longleftrightarrow> sint u \<le> - w"
    unfolding q_def using assms(1) by (rule pos_imp_zdiv_pos_iff)
  then have neg: "- q < 0 \<longleftrightarrow> sint u \<le> 2 ^ 64 - (sint v + sint u - 1)"
    by (simp add: w_def)
  show ?thesis
    using sum wneg res sq quot q0 neg unfolding w_def by auto
qed

theorem RoundUpSize_wraps_witness:
  "0 \<le> sint (0x7FFFFFFFFFFFFFFF :: int64) \<and> 0 < sint GiB \<and>
   2 ^ 63 - sint GiB < sint (0x7FFFFFFFFFFFFFFF :: int64) \<and>
   sint ((0x7FFFFFFFFFFFFFFF :: int64) + GiB - 1) = - 9223372035781033986 \<and>
   (\<exists>r. RoundUpSize 0x7FFFFFFFFFFFFFFF GiB = Inr r \<and> sint r = - 8589934591 \<and> sint r < 0)"
proof -
  have h1: "0 < sint GiB" by (simp add: GiB_def MiB_def KiB_def)
  have h2: "2 ^ 63 - sint GiB < sint (0x7FFFFFFFFFFFFFFF :: int64)"
    by (simp add: GiB_def MiB_def KiB_def)
  have g: "sint GiB = 1073741824" by (simp add: GiB_def MiB_def KiB_def)
  have d: "(- 9223372035781033986 :: int) sdiv 1073741824 = - 8589934591"
    by (simp add: signed_divide_int_def)
  from RoundUpSize_wraps [OF h1 h2] h1 h2 g d show ?thesis by simp blast
qed

subsection \<open>Access-mode set operations\<close>

lemma AccessModesContains_set:
  "AccessModesContains modes mode \<longleftrightarrow> mode \<in> set modes"
  by (induction modes) auto

lemma AccessModesContainedInAll_all:
  "AccessModesContainedInAll indexedModes requestedModes \<longleftrightarrow>
     (\<forall>mode \<in> set requestedModes. AccessModesContains indexedModes mode)"
  by (induction requestedModes) auto

text \<open>
  Claim C4. \<open>AccessModesContains\<close> decides membership by equality, and
  \<open>AccessModesContainedInAll indexedModes requestedModes\<close> is true if and only if
  every element of \<open>requestedModes\<close> appears in \<open>indexedModes\<close>. The result depends
  on the two lists only through their sets of elements: neither a repeated element
  nor the order of either argument changes it.
\<close>

theorem AccessModesContainedInAll_iff:
  "(AccessModesContains indexedModes mode \<longleftrightarrow> mode \<in> set indexedModes) \<and>
   (AccessModesContainedInAll indexedModes requestedModes \<longleftrightarrow>
      (\<forall>m \<in> set requestedModes. m \<in> set indexedModes)) \<and>
   (set indexedModes' = set indexedModes \<longrightarrow> set requestedModes' = set requestedModes \<longrightarrow>
      AccessModesContainedInAll indexedModes' requestedModes' =
      AccessModesContainedInAll indexedModes requestedModes)"
  by (simp add: AccessModesContainedInAll_all AccessModesContains_set)

theorem AccessModesContainedInAll_iff_witness:
  "set [''ReadOnlyMany'', ''ReadWriteOnce''] = set [''ReadWriteOnce'', ''ReadOnlyMany''] \<and>
   set [''ReadOnlyMany''] = set [''ReadOnlyMany'', ''ReadOnlyMany''] \<and>
   set [''ReadOnlyMany'', ''ReadOnlyMany''] \<subseteq> set [''ReadWriteOnce'', ''ReadOnlyMany''] \<and>
   AccessModesContainedInAll [''ReadWriteOnce'', ''ReadOnlyMany''] [''ReadOnlyMany'', ''ReadOnlyMany''] \<and>
   AccessModesContainedInAll [''ReadOnlyMany'', ''ReadWriteOnce''] [''ReadOnlyMany''] \<and>
   \<not> AccessModesContainedInAll [''ReadWriteOnce''] [''ReadWriteOnce'', ''ReadOnlyMany'']"
  using AccessModesContainedInAll_iff
    [of "[''ReadWriteOnce'', ''ReadOnlyMany'']" "''ReadOnlyMany''"
        "[''ReadOnlyMany'', ''ReadOnlyMany'']"
        "[''ReadOnlyMany'', ''ReadWriteOnce'']" "[''ReadOnlyMany'']"]
  by (simp add: insert_commute)

subsection \<open>Storage-class and volume-mode accessors\<close>

text \<open>
  Claim C5. For every volume descriptor and every claim descriptor,
  \<open>GetPersistentVolumeClass\<close> and \<open>GetPersistentVolumeClaimClass\<close> follow one
  precedence rule: when the legacy storage-class annotation is present in the
  annotation map its value is returned, whatever the structured field holds; only
  when it is absent is the structured \<^verbatim>\<open>StorageClassName\<close> field returned (for a claim,
  the empty string when that field is \<^verbatim>\<open>nil\<close>).
\<close>

theorem storage_class_precedence:
  "(Annotations (PV_ObjectMeta volume) BetaStorageClassAnnotation = Some class \<longrightarrow>
      GetPersistentVolumeClass (Some volume) = Inr class \<and>
      GetPersistentVolumeClass (Some (volume\<lparr>PV_Spec := spec\<rparr>)) = Inr class) \<and>
   (Annotations (PV_ObjectMeta volume) BetaStorageClassAnnotation = None \<longrightarrow>
      GetPersistentVolumeClass (Some volume) = Inr (PV_StorageClassName (PV_Spec volume))) \<and>
   (Annotations (PVC_ObjectMeta claim) BetaStorageClassAnnotation = Some class' \<longrightarrow>
      GetPersistentVolumeClaimClass (Some claim) = Inr class' \<and>
      GetPersistentVolumeClaimClass (Some (claim\<lparr>PVC_Spec := spec'\<rparr>)) = Inr class') \<and>
   (Annotations (PVC_ObjectMeta claim) BetaStorageClassAnnotation = None \<longrightarrow>
      GetPersistentVolumeClaimClass (Some claim) =
        Inr (case PVC_StorageClassName (PVC_Spec claim) of None \<Rightarrow> '''' | Some name \<Rightarrow> name))"
  by (auto simp: GetPersistentVolumeClass_def GetPersistentVolumeClaimClass_def deref_def
           split: option.splits)

theorem storage_class_precedence_witness:
  "Annotations \<lparr>Annotations = [BetaStorageClassAnnotation \<mapsto> ''fast'']\<rparr>
     BetaStorageClassAnnotation = Some ''fast'' \<and>
   GetPersistentVolumeClass
     (Some \<lparr>PV_ObjectMeta = \<lparr>Annotations = [BetaStorageClassAnnotation \<mapsto> ''fast'']\<rparr>,
            PV_Spec = \<lparr>PV_StorageClassName = ''slow''\<rparr>\<rparr>) = Inr ''fast'' \<and>
   Annotations \<lparr>Annotations = Map.empty\<rparr> BetaStorageClassAnnotation = None \<and>
   GetPersistentVolumeClass
     (Some \<lparr>PV_ObjectMeta = \<lparr>Annotations = Map.empty\<rparr>,
            PV_Spec = \<lparr>PV_StorageClassName = ''slow''\<rparr>\<rparr>) = Inr ''slow'' \<and>
   GetPersistentVolumeClaimClass
     (Some \<lparr>PVC_ObjectMeta = \<lparr>Annotations = [BetaStorageClassAnnotation \<mapsto> ''fast'']\<rparr>,
            PVC_Spec = \<lparr>PVC_StorageClassName = Some ''slow'', PVC_VolumeMode = None\<rparr>\<rparr>) =
     Inr ''fast'' \<and>
   GetPersistentVolumeClaimClass
     (Some \<lparr>PVC_ObjectMeta = \<lparr>Annotations = Map.empty\<rparr>,
            PVC_Spec = \<lparr>PVC_StorageClassName = Some ''slow'', PVC_VolumeMode = None\<rparr>\<rparr>) =
     Inr ''slow''"
  using storage_class_precedence
    [of "\<lparr>PV_ObjectMeta = \<lparr>Annotations = [BetaStorageClassAnnotation \<mapsto> ''fast'']\<rparr>,
          PV_Spec = \<lparr>PV_StorageClassName = ''slow''\<rparr>\<rparr>" "''fast''"
        "\<lparr>PV_StorageClassName = ''slow''\<rparr>"
        "\<lparr>PVC_ObjectMeta = \<lparr>Annotations = [BetaStorageClassAnnotation \<mapsto> ''fast'']\<rparr>,
          PVC_Spec = \<lparr>PVC_StorageClassName = Some ''slow'', PVC_VolumeMode = None\<rparr>\<rparr>" "''fast''"
        "\<lparr>PVC_StorageClassName = Some ''slow'', PVC_VolumeMode = None\<rparr>"]
    storage_class_precedence
    [of "\<lparr>PV_ObjectMeta = \<lparr>Annotations = Map.empty\<rparr>,
          PV_Spec = \<lparr>PV_StorageClassName = ''slow''\<rparr>\<rparr>" "''fast''"
        "\<lparr>PV_StorageClassName = ''slow''\<rparr>"
        "\<lparr>PVC_ObjectMeta = \<lparr>Annotations = Map.empty\<rparr>,
          PVC_Spec = \<lparr>PVC_StorageClassName = Some ''slow'', PVC_VolumeMode = None\<rparr>\<rparr>" "''fast''"
        "\<lparr>PVC_StorageClassName = Some ''slow'', PVC_VolumeMode = None\<rparr>"]
  by simp

text \<open>
  Claim C6. For a claim descriptor without the legacy annotation and with a \<^verbatim>\<open>nil\<close>
  \<^verbatim>\<open>StorageClassName\<close>, \<open>GetPersistentVolumeClaimClass\<close> returns the empty string and
  does not panic: the read through the pointer is not reached.
\<close>

theorem claim_class_nil_safe:
  assumes "Annotations (PVC_ObjectMeta claim) BetaStorageClassAnnotation = None"
    and "PVC_StorageClassName (PVC_Spec claim) = None"
  shows "GetPersistentVolumeClaimClass (Some claim) = Inr ''''"
  using assms by (simp add: GetPersistentVolumeClaimClass_def deref_def)

theorem claim_class_nil_safe_witness:
  "Annotations (PVC_ObjectMeta
     \<lparr>PVC_ObjectMeta = \<lparr>Annotations = Map.empty\<rparr>,
      PVC_Spec = \<lparr>PVC_StorageClassName = None, PVC_VolumeMode = None\<rparr>\<rparr>)
     BetaStorageClassAnnotation = None \<and>
   PVC_StorageClassName (PVC_Spec
     \<lparr>PVC_ObjectMeta = \<lparr>Annotations = Map.empty\<rparr>,
      PVC_Spec = \<lparr>PVC_StorageClassName = None, PVC_VolumeMode = None\<rparr>\<rparr>) = None \<and>
   GetPersistentVolumeClaimClass
     (Some \<lparr>PVC_ObjectMeta = \<lparr>Annotations = Map.empty\<rparr>,
            PVC_Spec = \<lparr>PVC_StorageClassName = None, PVC_VolumeMode = None\<rparr>\<rparr>) = Inr ''''"
  using claim_class_nil_safe
    [of "\<lparr>PVC_ObjectMeta = \<lparr>Annotations = Map.empty\<rparr>,
          PVC_Spec = \<lparr>PVC_StorageClassName = None, PVC_VolumeMode = None\<rparr>\<rparr>"]
  by simp

text \<open>
  Claim C7. For every claim descriptor, \<open>CheckPersistentVolumeClaimModeBlock\<close>
  returns, without a panic, true if and only if the \<^verbatim>\<open>VolumeMode\<close> field is not \<^verbatim>\<open>nil\<close>
  and its value is the Block volume mode; a \<^verbatim>\<open>nil\<close> field gives false.
\<close>

theorem CheckPersistentVolumeClaimModeBlock_iff:
  "CheckPersistentVolumeClaimModeBlock (Some pvc) =
     Inr (PVC_VolumeMode (PVC_Spec pvc) = Some PersistentVolumeBlock) \<and>
   (PVC_VolumeMode (PVC_Spec pvc) = None \<longrightarrow>
      CheckPersistentVolumeClaimModeBlock (Some pvc) = Inr False)"
  by (auto simp: CheckPersistentVolumeClaimModeBlock_def deref_def split: option.splits)

theorem CheckPersistentVolumeClaimModeBlock_iff_witness:
  "PVC_VolumeMode (PVC_Spec
     \<lparr>PVC_ObjectMeta = \<lparr>Annotations = Map.empty\<rparr>,
      PVC_Spec = \<lparr>PVC_StorageClassName = None, PVC_VolumeMode = None\<rparr>\<rparr>) = None \<and>
   CheckPersistentVolumeClaimModeBlock
     (Some \<lparr>PVC_ObjectMeta = \<lparr>Annotations = Map.empty\<rparr>,
            PVC_Spec = \<lparr>PVC_StorageClassName = None, PVC_VolumeMode = None\<rparr>\<rparr>) = Inr False \<and>
   CheckPersistentVolumeClaimModeBlock
     (Some \<lparr>PVC_ObjectMeta = \<lparr>Annotations = Map.empty\<rparr>,
            PVC_Spec = \<lparr>PVC_StorageClassName = None,
                        PVC_VolumeMode = Some PersistentVolumeBlock\<rparr>\<rparr>) = Inr True \<and>
   CheckPersistentVolumeClaimModeBlock
     (Some \<lparr>PVC_ObjectMeta = \<lparr>Annotations = Map.empty\<rparr>,
            PVC_Spec = \<lparr>PVC_StorageClassName = None,
                        PVC_VolumeMode = Some PersistentVolumeFilesystem\<rparr>\<rparr>) = Inr False"
  using CheckPersistentVolumeClaimModeBlock_iff
    [of "\<lparr>PVC_ObjectMeta = \<lparr>Annotations = Map.empty\<rparr>,
          PVC_Spec = \<lparr>PVC_StorageClassName = None, PVC_VolumeMode = None\<rparr>\<rparr>"]
    CheckPersistentVolumeClaimModeBlock_iff
    [of "\<lparr>PVC_ObjectMeta = \<lparr>Annotations = Map.empty\<rparr>,
          PVC_Spec = \<lparr>PVC_StorageClassName = None,
                      PVC_VolumeMode = Some PersistentVolumeBlock\<rparr>\<rparr>"]
    CheckPersistentVolumeClaimModeBlock_iff
    [of "\<lparr>PVC_ObjectMeta = \<lparr>Annotations = Map.empty\<rparr>,
          PVC_Spec = \<lparr>PVC_StorageClassName = None,
                      PVC_VolumeMode = Some PersistentVolumeFilesystem\<rparr>\<rparr>"]
  by (simp add: PersistentVolumeBlock_def PersistentVolumeFilesystem_def)

subsection \<open>DNS service discovery\<close>

lemma fst_checkClusterIP: "fst (checkClusterIP dnssvc logs) = ClusterIP (Svc_Spec dnssvc)"
  by (simp add: checkClusterIP_def)

text \<open>
  Claim C2. \<open>FindDNSIP\<close> returns a string and never an error value. When the lookup
  of the service \<^verbatim>\<open>coredns\<close> in the system namespace succeeds, the answer is that
  service's ClusterIP, or the empty string when the ClusterIP is empty. When that lookup
  fails, for whatever reason, the service \<^verbatim>\<open>kube-dns\<close> of the same namespace is looked
  up and treated likewise. When both lookups fail the answer is the empty string.
\<close>

theorem FindDNSIP_fallback:
  "(client ctx NamespaceSystem ''coredns'' = Inr coredns \<longrightarrow>
      fst (FindDNSIP ctx client) =
        (if ClusterIP (Svc_Spec coredns) = '''' then '''' else ClusterIP (Svc_Spec coredns))) \<and>
   (client ctx NamespaceSystem ''coredns'' = Inl err \<longrightarrow>
    client ctx NamespaceSystem ''kube-dns'' = Inr kubedns \<longrightarrow>
      fst (FindDNSIP ctx client) =
        (if ClusterIP (Svc_Spec kubedns) = '''' then '''' else ClusterIP (Svc_Spec kubedns))) \<and>
   (client ctx NamespaceSystem ''coredns'' = Inl err \<longrightarrow>
    client ctx NamespaceSystem ''kube-dns'' = Inl err' \<longrightarrow>
      fst (FindDNSIP ctx client) = '''')"
  by (simp add: FindDNSIP_def Let_def fst_checkClusterIP)

theorem FindDNSIP_fallback_witness:
  "fst (FindDNSIP \<lparr>Verbosity = 0\<rparr>
     (\<lambda>ctx ns name. if ns = NamespaceSystem \<and> name = ''kube-dns''
        then Inr \<lparr>Svc_Spec = \<lparr>ClusterIP = ''10.0.0.10''\<rparr>\<rparr> else Inl ''not found'')) = ''10.0.0.10'' \<and>
   fst (FindDNSIP \<lparr>Verbosity = 0\<rparr>
     (\<lambda>ctx ns name. if ns = NamespaceSystem \<and> name = ''coredns''
        then Inr \<lparr>Svc_Spec = \<lparr>ClusterIP = ''10.0.0.53''\<rparr>\<rparr> else Inl ''not found'')) = ''10.0.0.53'' \<and>
   fst (FindDNSIP \<lparr>Verbosity = 0\<rparr>
     (\<lambda>ctx ns name. if ns = NamespaceSystem \<and> name = ''coredns''
        then Inr \<lparr>Svc_Spec = \<lparr>ClusterIP = ''''\<rparr>\<rparr> else Inl ''not found'')) = '''' \<and>
   fst (FindDNSIP \<lparr>Verbosity = 0\<rparr> (\<lambda>ctx ns name. Inl ''not found'')) = ''''"
  using
    FindDNSIP_fallback [of "\<lambda>ctx ns name. if ns = NamespaceSystem \<and> name = ''kube-dns''
        then Inr \<lparr>Svc_Spec = \<lparr>ClusterIP = ''10.0.0.10''\<rparr>\<rparr> else Inl ''not found''"
      "\<lparr>Verbosity = 0\<rparr>" "\<lparr>Svc_Spec = \<lparr>ClusterIP = ''''\<rparr>\<rparr>" "''not found''"
      "\<lparr>Svc_Spec = \<lparr>ClusterIP = ''10.0.0.10''\<rparr>\<rparr>" "''not found''"]
    FindDNSIP_fallback [of "\<lambda>ctx ns name. if ns = NamespaceSystem \<and> name = ''coredns''
        then Inr \<lparr>Svc_Spec = \<lparr>ClusterIP = ''10.0.0.53''\<rparr>\<rparr> else Inl ''not found''"
      "\<lparr>Verbosity = 0\<rparr>" "\<lparr>Svc_Spec = \<lparr>ClusterIP = ''10.0.0.53''\<rparr>\<rparr>" "''not found''"
      "\<lparr>Svc_Spec = \<lparr>ClusterIP = ''''\<rparr>\<rparr>" "''not found''"]
    FindDNSIP_fallback [of "\<lambda>ctx ns name. if ns = NamespaceSystem \<and> name = ''coredns''
        then Inr \<lparr>Svc_Spec = \<lparr>ClusterIP = ''''\<rparr>\<rparr> else Inl ''not found''"
      "\<lparr>Verbosity = 0\<rparr>" "\<lparr>Svc_Spec = \<lparr>ClusterIP = ''''\<rparr>\<rparr>" "''not found''"
      "\<lparr>Svc_Spec = \<lparr>ClusterIP = ''''\<rparr>\<rparr>" "''not found''"]
    FindDNSIP_fallback [of "\<lambda>ctx ns name. Inl ''not found''"
      "\<lparr>Verbosity = 0\<rparr>" "\<lparr>Svc_Spec = \<lparr>ClusterIP = ''''\<rparr>\<rparr>" "''not found''"
      "\<lparr>Svc_Spec = \<lparr>ClusterIP = ''''\<rparr>\<rparr>" "''not found''"]
  by simp

subsection \<open>Host lookup on a given DNS server\<close>

lemma fst_LookupHost_answers:
  "fst (LookupHost_answers ctx lib answers iplist logs) =
     iplist @ [ip_String lib ip. RR_A ip \<leftarrow> answers]"
  by (induction answers arbitrary: iplist logs) (auto simp: Let_def split: RR.splits)

text \<open>
  Claim C3. \<open>LookupHost\<close> makes one exchange, with the question for the A records of
  the qualified host name, against port 53 of the given server. It returns an error,
  with a \<^verbatim>\<open>nil\<close> address list, exactly when that exchange fails. When the exchange
  succeeds it returns, with no error, the addresses of the answer records of type A, in
  the order of the answer section; every other answer record is dropped.
\<close>

theorem LookupHost_result:
  "(dns_Exchange lib
      \<lparr>Questions = [\<lparr>Name = dns_Fqdn lib hostname, Qtype = TypeA\<rparr>], Answer = []\<rparr>
      (JoinHostPort (lib_JoinHostPort lib) serverip ''53'') = Inl err \<longrightarrow>
      fst (LookupHost ctx lib hostname serverip) = ([], Some err)) \<and>
   (dns_Exchange lib
      \<lparr>Questions = [\<lparr>Name = dns_Fqdn lib hostname, Qtype = TypeA\<rparr>], Answer = []\<rparr>
      (JoinHostPort (lib_JoinHostPort lib) serverip ''53'') = Inr reply \<longrightarrow>
      fst (LookupHost ctx lib hostname serverip) =
        ([ip_String lib ip. RR_A ip \<leftarrow> Answer reply], None)) \<and>
   (snd (fst (LookupHost ctx lib hostname serverip)) \<noteq> None \<longleftrightarrow>
      isl (dns_Exchange lib
        \<lparr>Questions = [\<lparr>Name = dns_Fqdn lib hostname, Qtype = TypeA\<rparr>], Answer = []\<rparr>
        (JoinHostPort (lib_JoinHostPort lib) serverip ''53'')))"
proof -
  let ?r = "dns_Exchange lib
      \<lparr>Questions = [\<lparr>Name = dns_Fqdn lib hostname, Qtype = TypeA\<rparr>], Answer = []\<rparr>
      (JoinHostPort (lib_JoinHostPort lib) serverip ''53'')"
  show ?thesis
  proof (cases ?r)
    case (Inl e)
    then show ?thesis by (simp add: LookupHost_def Let_def)
  next
    case (Inr rep)
    have "fst (LookupHost ctx lib hostname serverip) =
            (fst (LookupHost_answers ctx lib (Answer rep) []
               (V_Info ctx 4 ''LookupHost''
                  [(''hostname'', KStr hostname), (''serverIP'', KStr serverip)])), None)"
      using Inr by (simp add: LookupHost_def Let_def split: prod.splits)
    then show ?thesis using Inr by (simp add: fst_LookupHost_answers)
  qed
qed

theorem LookupHost_result_witness:
  "dns_Exchange demo_lib
     \<lparr>Questions = [\<lparr>Name = dns_Fqdn demo_lib ''example.com'', Qtype = TypeA\<rparr>], Answer = []\<rparr>
     (JoinHostPort (lib_JoinHostPort demo_lib) ''10.0.0.10'' ''53'') =
     Inr \<lparr>Questions = [\<lparr>Name = ''example.com.'', Qtype = TypeA\<rparr>],
          Answer = [RR_CNAME ''alias.example.'', RR_A ''192.0.2.1'', RR_Other 16,
                    RR_A ''192.0.2.2'']\<rparr> \<and>
   fst (LookupHost \<lparr>Verbosity = 0\<rparr> demo_lib ''example.com'' ''10.0.0.10'') =
     ([''192.0.2.1'', ''192.0.2.2''], None) \<and>
   dns_Exchange demo_lib
     \<lparr>Questions = [\<lparr>Name = dns_Fqdn demo_lib ''example.com'', Qtype = TypeA\<rparr>], Answer = []\<rparr>
     (JoinHostPort (lib_JoinHostPort demo_lib) ''10.0.0.11'' ''53'') = Inl ''i/o timeout'' \<and>
   fst (LookupHost \<lparr>Verbosity = 0\<rparr> demo_lib ''example.com'' ''10.0.0.11'') =
     ([], Some ''i/o timeout'')"
proof -
  have ok: "dns_Exchange demo_lib
     \<lparr>Questions = [\<lparr>Name = dns_Fqdn demo_lib ''example.com'', Qtype = TypeA\<rparr>], Answer = []\<rparr>
     (JoinHostPort (lib_JoinHostPort demo_lib) ''10.0.0.10'' ''53'') =
     Inr \<lparr>Questions = [\<lparr>Name = ''example.com.'', Qtype = TypeA\<rparr>],
          Answer = [RR_CNAME ''alias.example.'', RR_A ''192.0.2.1'', RR_Other 16,
                    RR_A ''192.0.2.2'']\<rparr>"
    by (simp add: demo_lib_def Fqdn_def IsFqdn_def JoinHostPort_def net_JoinHostPort_def)
  have ko: "dns_Exchange demo_lib
     \<lparr>Questions = [\<lparr>Name = dns_Fqdn demo_lib ''example.com'', Qtype = TypeA\<rparr>], Answer = []\<rparr>
     (JoinHostPort (lib_JoinHostPort demo_lib) ''10.0.0.11'' ''53'') = Inl ''i/o timeout''"
    by (simp add: demo_lib_def Fqdn_def IsFqdn_def JoinHostPort_def net_JoinHostPort_def)
  have ips: "ip_String demo_lib = (\<lambda>ip. ip)" by (simp add: demo_lib_def)
  from
    LookupHost_result [where lib = demo_lib and hostname = "''example.com''"
      and serverip = "''10.0.0.10''" and ctx = "\<lparr>Verbosity = 0\<rparr>"
      and reply = "\<lparr>Questions = [\<lparr>Name = ''example.com.'', Qtype = TypeA\<rparr>],
          Answer = [RR_CNAME ''alias.example.'', RR_A ''192.0.2.1'', RR_Other 16,
                    RR_A ''192.0.2.2'']\<rparr>"]
    LookupHost_result [where lib = demo_lib and hostname = "''example.com''"
      and serverip = "''10.0.0.11''" and ctx = "\<lparr>Verbosity = 0\<rparr>"
      and err = "''i/o timeout''"]
    ok ko ips
  show ?thesis by simp
qed

subsection \<open>Host and port strings\<close>

text \<open>
  Claim C8. \<open>SplitHostPort\<close> never fails. When the standard host:port parsing of the
  input succeeds the parsed pair is returned; when it fails the whole input is returned
  as the host, with an empty port.
\<close>

theorem SplitHostPort_fallback:
  "(netSplitHostPort hostport = Inr (host, port) \<longrightarrow>
      SplitHostPort netSplitHostPort hostport = (host, port)) \<and>
   (netSplitHostPort hostport = Inl err \<longrightarrow>
      SplitHostPort netSplitHostPort hostport = (hostport, ''''))"
  by (simp add: SplitHostPort_def)

theorem SplitHostPort_fallback_witness:
  "net_SplitHostPort ''host:53'' = Inr (''host'', ''53'') \<and>
   SplitHostPort net_SplitHostPort ''host:53'' = (''host'', ''53'') \<and>
   net_SplitHostPort ''hostonly'' = Inl MissingPort \<and>
   SplitHostPort net_SplitHostPort ''hostonly'' = (''hostonly'', '''') \<and>
   net_SplitHostPort ''[::1'' = Inl MissingBracket \<and>
   SplitHostPort net_SplitHostPort ''[::1'' = (''[::1'', '''')"
proof -
  have a: "net_SplitHostPort ''host:53'' = Inr (''host'', ''53'')"
    by (simp add: net_SplitHostPort_def LastIndexByteString_def splitRest_def)
  have b: "net_SplitHostPort ''hostonly'' = Inl MissingPort"
    by (simp add: net_SplitHostPort_def LastIndexByteString_def splitRest_def)
  have c: "net_SplitHostPort ''[::1'' = Inl MissingBracket"
    by (simp add: net_SplitHostPort_def LastIndexByteString_def splitRest_def)
  from
    SplitHostPort_fallback [where netSplitHostPort = net_SplitHostPort
      and hostport = "''host:53''" and host = "''host''" and port = "''53''"]
    SplitHostPort_fallback [where netSplitHostPort = net_SplitHostPort
      and hostport = "''hostonly''" and err = MissingPort]
    SplitHostPort_fallback [where netSplitHostPort = net_SplitHostPort
      and hostport = "''[::1''" and err = MissingBracket]
    a b c
  show ?thesis by simp
qed

text \<open>
  Claim C9. \<open>JoinHostPort\<close> with an empty port returns the host unchanged, with no
  trailing colon; with a port that is not empty it returns the standard host:port join
  of the two.
\<close>

theorem JoinHostPort_optional_port:
  "JoinHostPort netJoinHostPort host '''' = host \<and>
   (port \<noteq> '''' \<longrightarrow> JoinHostPort netJoinHostPort host port = netJoinHostPort host port)"
  by (simp add: JoinHostPort_def)

theorem JoinHostPort_optional_port_witness:
  "''53'' \<noteq> '''' \<and>
   JoinHostPort net_JoinHostPort ''host'' '''' = ''host'' \<and>
   JoinHostPort net_JoinHostPort ''host'' ''53'' = ''host:53'' \<and>
   JoinHostPort net_JoinHostPort ''::1'' ''53'' = ''[::1]:53''"
  using
    JoinHostPort_optional_port [of net_JoinHostPort "''host''" "''53''"]
    JoinHostPort_optional_port [of net_JoinHostPort "''::1''" "''53''"]
  by (simp add: net_JoinHostPort_def)

end
